theory Spec2Isabelle
  imports Complex_Main
begin

section \<open>JavaScript numbers and values\<close>

text \<open>
  A JavaScript number is an IEEE-754 double. The model keeps what decides the
  control flow of the program: the finite values (as reals), the negative zero, the two
  infinities and NaN. \<open>Fin 0\<close> is the positive zero. The operations follow the IEEE
  rules for signs, zeros, infinities and NaN; rounding to 53 bits (and so overflow and
  underflow of finite results) is not modelled, a finite result is the exact real.
\<close>

datatype jsnum = Fin real | NegZero | PosInf | NegInf | NaN

fun is_zero :: "jsnum \<Rightarrow> bool" where
  "is_zero (Fin r) = (r = 0)"
| "is_zero NegZero = True"
| "is_zero _ = False"

fun is_inf :: "jsnum \<Rightarrow> bool" where
  "is_inf PosInf = True"
| "is_inf NegInf = True"
| "is_inf _ = False"

fun is_fin :: "jsnum \<Rightarrow> bool" where
  "is_fin (Fin r) = True"
| "is_fin NegZero = True"
| "is_fin _ = False"

text \<open>The sign bit.\<close>

fun sign_neg :: "jsnum \<Rightarrow> bool" where
  "sign_neg (Fin r) = (r < 0)"
| "sign_neg NegZero = True"
| "sign_neg NegInf = True"
| "sign_neg _ = False"

text \<open>The real value of a finite number (both zeros are 0).\<close>

fun fin_val :: "jsnum \<Rightarrow> real" where
  "fin_val (Fin r) = r"
| "fin_val _ = 0"

definition zero_of :: "bool \<Rightarrow> jsnum" where
  "zero_of neg = (if neg then NegZero else Fin 0)"

definition inf_of :: "bool \<Rightarrow> jsnum" where
  "inf_of neg = (if neg then NegInf else PosInf)"

fun js_neg :: "jsnum \<Rightarrow> jsnum" where
  "js_neg (Fin r) = (if r = 0 then NegZero else Fin (- r))"
| "js_neg NegZero = Fin 0"
| "js_neg PosInf = NegInf"
| "js_neg NegInf = PosInf"
| "js_neg NaN = NaN"

text \<open>\<open>a + b\<close>: opposite infinities give NaN; a zero sum is the positive zero unless both
  operands are the negative zero.\<close>

definition js_add :: "jsnum \<Rightarrow> jsnum \<Rightarrow> jsnum" where
  "js_add a b =
     (if a = NaN \<or> b = NaN then NaN
      else if is_inf a then (if is_inf b \<and> a \<noteq> b then NaN else a)
      else if is_inf b then b
      else if a = NegZero \<and> b = NegZero then NegZero
      else Fin (fin_val a + fin_val b))"

definition js_sub :: "jsnum \<Rightarrow> jsnum \<Rightarrow> jsnum" where
  "js_sub a b = js_add a (js_neg b)"

text \<open>\<open>a * b\<close>: infinity times zero is NaN; the sign of the result is the exclusive or
  of the signs.\<close>

definition js_mul :: "jsnum \<Rightarrow> jsnum \<Rightarrow> jsnum" where
  "js_mul a b =
     (if a = NaN \<or> b = NaN then NaN
      else if is_inf a \<or> is_inf b then
        (if is_zero a \<or> is_zero b then NaN else inf_of (sign_neg a \<noteq> sign_neg b))
      else if is_zero a \<or> is_zero b then zero_of (sign_neg a \<noteq> sign_neg b)
      else Fin (fin_val a * fin_val b))"

text \<open>\<open>a / b\<close>: dividing by a zero does not fail, it gives a signed infinity, or NaN
  for \<open>0 / 0\<close>.\<close>

definition js_div :: "jsnum \<Rightarrow> jsnum \<Rightarrow> jsnum" where
  "js_div a b =
     (if a = NaN \<or> b = NaN then NaN
      else if is_inf a then (if is_inf b then NaN else inf_of (sign_neg a \<noteq> sign_neg b))
      else if is_inf b then zero_of (sign_neg a \<noteq> sign_neg b)
      else if is_zero b then (if is_zero a then NaN else inf_of (sign_neg a \<noteq> sign_neg b))
      else if is_zero a then zero_of (sign_neg a \<noteq> sign_neg b)
      else Fin (fin_val a / fin_val b))"

text \<open>\<open>a < b\<close>: false as soon as one side is NaN; the two zeros are equal.\<close>

definition js_lt :: "jsnum \<Rightarrow> jsnum \<Rightarrow> bool" where
  "js_lt a b =
     (if a = NaN \<or> b = NaN then False
      else if a = PosInf \<or> b = NegInf then False
      else if a = NegInf \<or> b = PosInf then True
      else fin_val a < fin_val b)"

text \<open>\<open>a <= b\<close> (and \<open>b >= a\<close>): false as soon as one side is NaN.\<close>

definition js_le :: "jsnum \<Rightarrow> jsnum \<Rightarrow> bool" where
  "js_le a b = (if a = NaN \<or> b = NaN then False else \<not> js_lt b a)"

text \<open>\<open>Math.floor\<close>.\<close>

fun js_floor :: "jsnum \<Rightarrow> jsnum" where
  "js_floor (Fin r) = Fin (of_int \<lfloor>r\<rfloor>)"
| "js_floor a = a"

text \<open>
  A field read from the JSON feed is a number or a string. \<open>ToNumber\<close> is the coercion
  the arithmetic and relational operators apply to an operand; on a string it is the
  language's numeric-literal parser, which is no code of this program and is taken as the
  parameter \<open>S\<close>.
\<close>

datatype jsval = JNum jsnum | JStr string

fun ToNumber :: "(string \<Rightarrow> jsnum) \<Rightarrow> jsval \<Rightarrow> jsnum" where
  "ToNumber S (JNum n) = n"
| "ToNumber S (JStr s) = S s"

text \<open>\<open>xs[i]\<close> for a number \<open>i\<close>: the element at an integer index inside the array
  (the negative zero is the key \<open>"0"\<close>), and \<open>undefined\<close> (None) everywhere else.\<close>

fun js_index :: "'a list \<Rightarrow> jsnum \<Rightarrow> 'a option" where
  "js_index xs (Fin r) =
     (if 0 \<le> r \<and> r = of_int \<lfloor>r\<rfloor> \<and> nat \<lfloor>r\<rfloor> < length xs then Some (xs ! nat \<lfloor>r\<rfloor>) else None)"
| "js_index xs NegZero = (if 0 < length xs then Some (xs ! 0) else None)"
| "js_index xs _ = None"

section \<open>Data model\<close>

text \<open>One pod or node of a metrics snapshot.\<close>

record entity =
  name :: string
  namespace :: "string option"
  cpuUsage :: jsval
  memoryUsage :: jsnum

text \<open>The fields of the configuration object that the modelled functions read.\<close>

record config =
  durationMin :: jsnum
  durationMax :: jsnum
  maxCpuToast :: jsnum
  zoomiesFreq :: jsnum
  copsFreq :: jsnum
  copsAndRobbers :: bool
  butterChance :: jsnum
  butterMaxSlices :: jsnum
  excludeNamespaces :: "string list"
  christmasMode :: bool
  christmasToasters :: "string list"
  santaFreq :: jsnum

section \<open>Sprite image selector\<close>

text \<open>
  \<open>chooseImageType\<close> of the normal mode. \<open>usageRatio\<close> is its local constant of that
  name; in the toaster branch it is the raw field, coerced only by the comparisons.
\<close>

definition usageRatio :: "(string \<Rightarrow> jsnum) \<Rightarrow> config \<Rightarrow> entity \<Rightarrow> string \<Rightarrow> jsval" where
  "usageRatio S cfg data type =
     (if type = ''toast'' then JNum (js_div (ToNumber S (cpuUsage data)) (maxCpuToast cfg))
      else cpuUsage data)"

definition chooseImageType :: "(string \<Rightarrow> jsnum) \<Rightarrow> config \<Rightarrow> entity \<Rightarrow> string \<Rightarrow> string" where
  "chooseImageType S cfg data type =
     (if cpuUsage data = JStr ''4040404'' then
        (if type = ''toast'' then ''missing-toast'' else ''missing-toaster'')
      else let r = ToNumber S (usageRatio S cfg data type) in
        if js_lt r (Fin 0.25) then type @ ''1''
        else if js_lt r (Fin 0.5) then type @ ''2''
        else if js_lt r (Fin 0.75) then type @ ''3''
        else type @ ''4'')"

text \<open>
  \<open>chooseImageType\<close> of the Christmas mode. The two calls of \<open>Math.random()\<close> are the
  draws \<open>u1\<close> and \<open>u2\<close>. The result of indexing the list is returned as it is, so
  \<open>undefined\<close> is the result None.
\<close>

definition chooseImageTypeChristmas ::
  "config \<Rightarrow> real \<Rightarrow> real \<Rightarrow> entity \<Rightarrow> string \<Rightarrow> string option" where
  "chooseImageTypeChristmas cfg u1 u2 data type =
     (if js_lt (Fin u1) (santaFreq cfg) then Some ''santa''
      else js_index (christmasToasters cfg)
             (js_floor (js_mul (Fin u2) (Fin (real (length (christmasToasters cfg)))))))"

text \<open>
  The selector of a sprite (\<open>imgType\<close> of the flying item): the Christmas selector when
  the configuration sets \<open>christmasMode\<close>, the normal one otherwise.
\<close>

definition imgType ::
  "(string \<Rightarrow> jsnum) \<Rightarrow> config \<Rightarrow> real \<Rightarrow> real \<Rightarrow> entity \<Rightarrow> string \<Rightarrow> string option" where
  "imgType S cfg u1 u2 data type =
     (if christmasMode cfg then chooseImageTypeChristmas cfg u1 u2 data type
      else Some (chooseImageType S cfg data type))"

section \<open>Sprite animation controller\<close>

text \<open>
  What one flying item reads but does not own: its props \<open>type\<close>, \<open>size\<close>,
  \<open>isMuted\<close> and \<open>isPaused\<close>, and the size of the window.
\<close>

record env =
  type_prop :: string
  size_prop :: jsnum
  innerWidth :: jsnum
  innerHeight :: jsnum
  isMuted :: bool
  isPaused :: bool

text \<open>
  The state of one flying item: the React state variables, the \<open>startTimeRef\<close>
  reference (None is \<open>null\<close>) and the variables local to the animation effect. A field
  holds the value the running callback sees; the result of a tick holds the values
  after all the setters it called are applied. The state variables \<open>readyToAnimate\<close>
  and \<open>butterAdjusted\<close> are written by timers only, \<open>moveItem\<close> neither reads nor
  writes them, and they are left out.
\<close>

record sprite =
  position :: "(jsnum \<times> jsnum) option"
  startTime :: "jsnum option"
  audioPlayed :: bool
  startX :: jsnum
  startY :: jsnum
  endX :: jsnum
  endY :: jsnum
  duration :: jsnum
  isZoomie :: bool
  isCop :: bool
  hasButter :: bool
  butterSlices :: jsnum
  wingSyncUuid :: string

text \<open>
  Randomness is an input: every call site of \<open>Math.random()\<close> (and of \<open>uuidv4()\<close>)
  that a leg completion can reach reads its own draw, in \<open>[0, 1)\<close> for the numbers. A
  draw whose call site is not reached is ignored.
\<close>

record draws =
  pathSide :: real
  path1 :: real
  path2 :: real
  path3 :: real
  uuid :: string
  zoomieDraw :: real
  durationDraw :: real
  copDraw :: real
  butterDraw :: real
  sliceDraw :: real

text \<open>\<open>generateRandomPath\<close>: the result is (startX, startY, endX, endY).\<close>

definition generateRandomPath :: "env \<Rightarrow> real \<Rightarrow> real \<Rightarrow> real \<Rightarrow> real
    \<Rightarrow> jsnum \<times> jsnum \<times> jsnum \<times> jsnum" where
  "generateRandomPath e u0 u1 u2 u3 =
     (let startFromTop = js_lt (Fin u0) (Fin 0.5) in
      if startFromTop then
        (js_sub (js_mul (Fin u1) (innerWidth e)) (size_prop e),
         js_mul (js_neg (size_prop e)) (Fin 2),
         js_add (innerWidth e) (js_div (js_mul (Fin u2) (innerWidth e)) (Fin 2)),
         js_sub (innerHeight e) (js_div (js_mul (Fin u3) (size_prop e)) (Fin 2)))
      else
        (js_mul (js_neg (size_prop e)) (Fin 2),
         js_sub (js_mul (Fin u1) (innerHeight e)) (size_prop e),
         js_sub (innerWidth e) (js_div (js_mul (Fin u2) (size_prop e)) (Fin 2)),
         js_add (innerHeight e) (js_div (js_mul (Fin u3) (innerHeight e)) (Fin 2))))"

text \<open>The local constant \<open>zoomieChance\<close> of a leg completion.\<close>

definition zoomieChance :: "config \<Rightarrow> draws \<Rightarrow> bool" where
  "zoomieChance cfg d = js_lt (Fin (zoomieDraw d)) (js_div (Fin 1) (zoomiesFreq cfg))"

text \<open>The random leg duration, before the division of a zoomie.\<close>

definition randomDuration :: "config \<Rightarrow> real \<Rightarrow> jsnum" where
  "randomDuration cfg u =
     js_add (js_mul (Fin u) (js_sub (durationMax cfg) (durationMin cfg))) (durationMin cfg)"

text \<open>The condition of the cop branch.\<close>

definition copChosen :: "config \<Rightarrow> draws \<Rightarrow> bool" where
  "copChosen cfg d =
     (zoomieChance cfg d \<and> copsAndRobbers cfg
      \<and> js_lt (Fin (copDraw d)) (js_div (Fin 1) (copsFreq cfg)))"

text \<open>The local constant \<open>butterChance\<close> of a leg completion (the configuration has a
  field of the same name).\<close>

definition butterChanceDraw :: "config \<Rightarrow> draws \<Rightarrow> bool" where
  "butterChanceDraw cfg d =
     (js_lt (Fin 0) (butterChance cfg)
      \<and> js_lt (Fin (butterDraw d)) (js_div (Fin 1) (butterChance cfg)))"

text \<open>
  The branch of \<open>moveItem\<close> taken when a leg is complete (\<open>progress < 1\<close> is false):
  new timing basis, new path, new decorations.
\<close>

definition legCompletion :: "env \<Rightarrow> config \<Rightarrow> draws \<Rightarrow> sprite \<Rightarrow> sprite" where
  "legCompletion e cfg d s =
     (let (sx, sy, ex, ey) = generateRandomPath e (pathSide d) (path1 d) (path2 d) (path3 d);
          s1 = s\<lparr>startTime := None, audioPlayed := False,
                 startX := sx, startY := sy, endX := ex, endY := ey,
                 wingSyncUuid := uuid d\<rparr>;
          s2 = s1\<lparr>isZoomie := zoomieChance cfg d,
                  duration := (if zoomieChance cfg d
                               then js_div (randomDuration cfg (durationDraw d)) (Fin 3)
                               else randomDuration cfg (durationDraw d))\<rparr>
      in if copChosen cfg d then
           s2\<lparr>isCop := True, butterSlices := Fin 0\<rparr>
         else if butterChanceDraw cfg d \<and> type_prop e = ''toast'' then
           s2\<lparr>isCop := False, hasButter := True,
              butterSlices :=
                (if zoomieChance cfg d
                 then js_add (js_floor (js_mul (Fin (sliceDraw d)) (butterMaxSlices cfg))) (Fin 1)
                 else Fin 0)\<rparr>
         else
           s2\<lparr>isCop := False, hasButter := False, butterSlices := Fin 0\<rparr>)"

text \<open>\<open>!startTimeRef.current\<close>: \<open>null\<close>, a zero and NaN are falsy.\<close>

fun unset :: "jsnum option \<Rightarrow> bool" where
  "unset None = True"
| "unset (Some t) = (is_zero t \<or> t = NaN)"

text \<open>The local constant \<open>progress\<close> of a frame; the timing basis is set to the
  timestamp of the frame when it is unset.\<close>

definition progress :: "jsnum \<Rightarrow> sprite \<Rightarrow> jsnum" where
  "progress timestamp s =
     js_div (js_sub timestamp (if unset (startTime s) then timestamp else the (startTime s)))
       (duration s)"

text \<open>
  One animation frame, \<open>moveItem(timestamp)\<close>. The result is the new state, whether the
  police sound is played and whether the next frame is requested.
\<close>

definition moveItem :: "env \<Rightarrow> config \<Rightarrow> draws \<Rightarrow> jsnum \<Rightarrow> sprite \<Rightarrow> sprite \<times> bool \<times> bool" where
  "moveItem e cfg d timestamp s =
     (let t0 = (if unset (startTime s) then timestamp else the (startTime s));
          p = progress timestamp s;
          currentX = js_add (startX s) (js_mul (js_sub (endX s) (startX s)) p);
          currentY = js_add (startY s) (js_mul (js_sub (endY s) (startY s)) p);
          s1 = s\<lparr>startTime := Some t0, position := Some (currentX, currentY)\<rparr>;
          cue = (isCop s \<and> \<not> audioPlayed s \<and> js_lt (Fin 0.2) p \<and> js_lt p (Fin 0.8));
          s2 = (if cue then s1\<lparr>audioPlayed := True\<rparr> else s1);
          sound = (cue \<and> js_le (Fin 0) currentX \<and> js_le currentX (innerWidth e)
                   \<and> js_le (Fin 0) currentY \<and> js_le currentY (innerHeight e) \<and> \<not> isMuted e)
      in if js_lt p (Fin 1) then (s2, sound, \<not> isPaused e)
         else (legCompletion e cfg d s2, sound, \<not> isPaused e))"

text \<open>
  The states of one sprite: the state of the first render (\<open>useState\<close> initial values,
  an initial path), and from there any animation frame and any leg completion.
\<close>

definition initialSprite :: "env \<Rightarrow> jsnum \<Rightarrow> draws \<Rightarrow> sprite" where
  "initialSprite e initialDuration d =
     (let (sx, sy, ex, ey) = generateRandomPath e (pathSide d) (path1 d) (path2 d) (path3 d)
      in \<lparr>position = None, startTime = None, audioPlayed = False,
          startX = sx, startY = sy, endX = ex, endY = ey,
          duration = initialDuration, isZoomie = False, isCop = False,
          hasButter = False, butterSlices = Fin 0, wingSyncUuid = uuid d\<rparr>)"

inductive reachable :: "env \<Rightarrow> config \<Rightarrow> sprite \<Rightarrow> bool" for e :: env and cfg :: config where
  reach_init: "reachable e cfg (initialSprite e dur d)"
| reach_frame: "reachable e cfg s \<Longrightarrow> reachable e cfg (fst (moveItem e cfg d t s))"
| reach_leg: "reachable e cfg s \<Longrightarrow> reachable e cfg (legCompletion e cfg d s)"

section \<open>Scene composer\<close>

text \<open>A metrics snapshot; a \<open>null\<close> timestamp is None.\<close>

record snapshot =
  timestamp :: "string option"
  pods :: "entity list"
  nodes :: "entity list"

text \<open>The state of the application: \<open>dataQueue\<close> and \<open>lastUpdated\<close>.\<close>

record app =
  dataQueue_pods :: "entity list"
  dataQueue_nodes :: "entity list"
  lastUpdated :: "string option"

definition initialApp :: app where
  "initialApp = \<lparr>dataQueue_pods = [], dataQueue_nodes = [], lastUpdated = None\<rparr>"

text \<open>\<open>excludeNamespaces.includes(pod.namespace)\<close>; a missing namespace is in no list of
  strings.\<close>

definition excluded :: "config \<Rightarrow> entity \<Rightarrow> bool" where
  "excluded cfg pod = (case namespace pod of None \<Rightarrow> False
                       | Some n \<Rightarrow> n \<in> set (excludeNamespaces cfg))"

text \<open>The template literal \<open>`${data.timestamp} (${source})`\<close>; \<open>null\<close> prints as
  \<open>null\<close>.\<close>

definition statusText :: "string option \<Rightarrow> string \<Rightarrow> string" where
  "statusText ts source =
     (case ts of None \<Rightarrow> ''null'' | Some t \<Rightarrow> t) @ '' ('' @ source @ '')''"

text \<open>
  \<open>fetchDataAndUpdate\<close>, after \<open>fetchData\<close> has returned \<open>data\<close> and \<open>source\<close>. The
  \<open>lastUpdated\<close> it compares with is the one of the state: the effect that defines the
  function runs again whenever \<open>lastUpdated\<close> changes.
\<close>

definition fetchDataAndUpdate :: "config \<Rightarrow> snapshot \<Rightarrow> string \<Rightarrow> app \<Rightarrow> app" where
  "fetchDataAndUpdate cfg data source s =
     (if timestamp data \<noteq> lastUpdated s then
        s\<lparr>dataQueue_pods := filter (\<lambda>pod. \<not> excluded cfg pod) (pods data),
          dataQueue_nodes := nodes data,
          lastUpdated := Some (statusText (timestamp data) source)\<rparr>
      else s)"

section \<open>Example inputs\<close>

text \<open>A parser that accepts no numeric literal: every string is NaN. The examples
  below never coerce a string, so they do not depend on it.\<close>

definition noLiterals :: "string \<Rightarrow> jsnum" where
  "noLiterals s = NaN"

text \<open>The built-in default configuration.\<close>

definition defaultConfig :: config where
  "defaultConfig =
     \<lparr>durationMin = Fin 15000, durationMax = Fin 20000, maxCpuToast = Fin 100,
      zoomiesFreq = Fin 10, copsFreq = Fin 5, copsAndRobbers = True,
      butterChance = Fin 5, butterMaxSlices = Fin 10, excludeNamespaces = [''argocd''],
      christmasMode = False, christmasToasters = [], santaFreq = Fin 0.1\<rparr>"

definition podA :: entity where
  "podA = \<lparr>name = ''pod-a'', namespace = Some ''default'', cpuUsage = JNum (Fin 80),
           memoryUsage = Fin 500\<rparr>"

definition podB :: entity where
  "podB = \<lparr>name = ''pod-b'', namespace = Some ''default'', cpuUsage = JNum (Fin 25),
           memoryUsage = Fin 100\<rparr>"

definition podArgo :: entity where
  "podArgo = \<lparr>name = ''argo-server'', namespace = Some ''argocd'', cpuUsage = JNum (Fin 5),
              memoryUsage = Fin 50\<rparr>"


definition nodeA :: entity where
  "nodeA = \<lparr>name = ''node-a'', namespace = None, cpuUsage = JNum (Fin 0.9),
            memoryUsage = Fin 0.1\<rparr>"

definition snapA :: snapshot where
  "snapA = \<lparr>timestamp = Some ''T1'', pods = [podArgo, podA], nodes = [nodeA]\<rparr>"

definition snapB :: snapshot where
  "snapB = \<lparr>timestamp = Some ''T1'', pods = [podB], nodes = []\<rparr>"

text \<open>The application after the snapshot \<open>snapA\<close> has arrived from the remote source.\<close>

definition displayedA :: app where
  "displayedA = fetchDataAndUpdate defaultConfig snapA ''remote'' initialApp"

definition toastEnv :: env where
  "toastEnv = \<lparr>type_prop = ''toast'', size_prop = Fin 250, innerWidth = Fin 1920,
               innerHeight = Fin 1080, isMuted = True, isPaused = False\<rparr>"

text \<open>Three legs under the default configuration: a slow leg with butter, a zoomie
  that is a cop, and a zoomie with butter that is no cop.\<close>

definition butterLeg :: draws where
  "butterLeg = \<lparr>pathSide = 0.3, path1 = 0.5, path2 = 0.5, path3 = 0.5, uuid = ''u1'',
                zoomieDraw = 0.5, durationDraw = 0.5, copDraw = 0.5, butterDraw = 0.1,
                sliceDraw = 0.5\<rparr>"

definition copLeg :: draws where
  "copLeg = \<lparr>pathSide = 0.7, path1 = 0.5, path2 = 0.5, path3 = 0.5, uuid = ''u2'',
             zoomieDraw = 0.05, durationDraw = 0.5, copDraw = 0.1, butterDraw = 0.9,
             sliceDraw = 0.5\<rparr>"

definition zoomieButterLeg :: draws where
  "zoomieButterLeg = \<lparr>pathSide = 0.7, path1 = 0.5, path2 = 0.5, path3 = 0.5, uuid = ''u3'',
                      zoomieDraw = 0.05, durationDraw = 0.5, copDraw = 0.6, butterDraw = 0.1,
                      sliceDraw = 0.55\<rparr>"

definition firstSprite :: sprite where
  "firstSprite = initialSprite toastEnv (Fin 17000) butterLeg"

section \<open>Arithmetic on finite numbers\<close>

lemma js_lt_Fin: "js_lt (Fin a) (Fin b) = (a < b)"
  by (simp add: js_lt_def)

lemma js_add_Fin: "js_add (Fin a) (Fin b) = Fin (a + b)"
  by (simp add: js_add_def)

lemma js_sub_Fin: "js_sub (Fin a) (Fin b) = Fin (a - b)"
  by (simp add: js_sub_def js_add_def)

lemma js_mul_Fin: "0 \<le> a \<Longrightarrow> 0 \<le> b \<Longrightarrow> js_mul (Fin a) (Fin b) = Fin (a * b)"
  by (auto simp add: js_mul_def zero_of_def)

lemma js_div_Fin: "0 < b \<Longrightarrow> js_div (Fin a) (Fin b) = Fin (a / b)"
  by (auto simp add: js_div_def zero_of_def)

lemma defaultConfig_fields:
  "durationMin defaultConfig = Fin 15000" "durationMax defaultConfig = Fin 20000"
  "maxCpuToast defaultConfig = Fin 100" "zoomiesFreq defaultConfig = Fin 10"
  "copsFreq defaultConfig = Fin 5" "copsAndRobbers defaultConfig"
  "butterChance defaultConfig = Fin 5" "butterMaxSlices defaultConfig = Fin 10"
  "excludeNamespaces defaultConfig = [''argocd'']" "\<not> christmasMode defaultConfig"
  "christmasToasters defaultConfig = []" "santaFreq defaultConfig = Fin 0.1"
  by (simp_all add: defaultConfig_def)

section \<open>The sprite image selector\<close>




text \<open>
  Claim C6. For an entity without the no-data marker, in the normal mode, let \<open>r\<close> be
  the ratio the selector computes. The selector returns variant 1 of the kind when
  \<open>0 \<le> r < 0.25\<close>, variant 2 when \<open>0.25 \<le> r < 0.5\<close>, variant 3 when
  \<open>0.5 \<le> r < 0.75\<close> and variant 4 when \<open>0.75 \<le> r\<close>: each of the boundaries 0.25,
  0.5 and 0.75 belongs to the bucket above it.
\<close>

theorem chooseImageType_buckets:
  assumes "cpuUsage data \<noteq> JStr ''4040404''"
    and "ToNumber S (usageRatio S cfg data kind) = Fin r"
  shows "(0 \<le> r \<and> r < 0.25 \<longrightarrow> chooseImageType S cfg data kind = kind @ ''1'')
       \<and> (0.25 \<le> r \<and> r < 0.5 \<longrightarrow> chooseImageType S cfg data kind = kind @ ''2'')
       \<and> (0.5 \<le> r \<and> r < 0.75 \<longrightarrow> chooseImageType S cfg data kind = kind @ ''3'')
       \<and> (0.75 \<le> r \<longrightarrow> chooseImageType S cfg data kind = kind @ ''4'')"
  using assms by (simp add: chooseImageType_def js_lt_Fin)

theorem chooseImageType_buckets_witness:
  "cpuUsage podA \<noteq> JStr ''4040404''
   \<and> ToNumber noLiterals (usageRatio noLiterals defaultConfig podA ''toast'') = Fin 0.8
   \<and> chooseImageType noLiterals defaultConfig podA ''toast'' = ''toast4''
   \<and> cpuUsage podB \<noteq> JStr ''4040404''
   \<and> ToNumber noLiterals (usageRatio noLiterals defaultConfig podB ''toast'') = Fin 0.25
   \<and> chooseImageType noLiterals defaultConfig podB ''toast'' = ''toast2''"
proof -
  have a: "cpuUsage podA \<noteq> JStr ''4040404''"
    by (simp add: podA_def)
  have ra: "ToNumber noLiterals (usageRatio noLiterals defaultConfig podA ''toast'') = Fin 0.8"
    by (simp add: usageRatio_def podA_def defaultConfig_fields js_div_Fin)
  have b: "cpuUsage podB \<noteq> JStr ''4040404''"
    by (simp add: podB_def)
  have rb: "ToNumber noLiterals (usageRatio noLiterals defaultConfig podB ''toast'') = Fin 0.25"
    by (simp add: usageRatio_def podB_def defaultConfig_fields js_div_Fin)
  show ?thesis
    using a ra b rb chooseImageType_buckets [OF a ra] chooseImageType_buckets [OF b rb]
    by simp
qed

text \<open>
  Claim C1, as the program has it. For an entity without the no-data marker, the ratio
  of the selector is \<open>cpuUsage / maxCpuToast\<close> for a toast and the \<open>cpuUsage\<close> field
  itself, not normalised, for a toaster. The memory usage of the entity takes no part: the
  ratio and the variant stay the same when it changes.
\<close>

theorem chooseImageType_ratio:
  assumes "cpuUsage data \<noteq> JStr ''4040404''"
  shows "usageRatio S cfg data ''toast''
           = JNum (js_div (ToNumber S (cpuUsage data)) (maxCpuToast cfg))
       \<and> usageRatio S cfg data ''toaster'' = cpuUsage data
       \<and> usageRatio S cfg (data\<lparr>memoryUsage := m\<rparr>) kind = usageRatio S cfg data kind
       \<and> chooseImageType S cfg (data\<lparr>memoryUsage := m\<rparr>) kind = chooseImageType S cfg data kind"
  by (simp add: usageRatio_def chooseImageType_def)

theorem chooseImageType_ratio_witness:
  "cpuUsage nodeA \<noteq> JStr ''4040404''
   \<and> usageRatio noLiterals defaultConfig nodeA ''toaster'' = JNum (Fin 0.9)
   \<and> usageRatio noLiterals defaultConfig podA ''toast'' = JNum (Fin 0.8)
   \<and> chooseImageType noLiterals defaultConfig (nodeA\<lparr>memoryUsage := Fin 0.5\<rparr>) ''toaster''
       = chooseImageType noLiterals defaultConfig nodeA ''toaster''"
proof -
  have h: "cpuUsage nodeA \<noteq> JStr ''4040404''"
    by (simp add: nodeA_def)
  have a: "cpuUsage podA \<noteq> JStr ''4040404''"
    by (simp add: podA_def)
  have n: "cpuUsage nodeA = JNum (Fin 0.9)"
    by (simp add: nodeA_def)
  have p: "js_div (ToNumber noLiterals (cpuUsage podA)) (maxCpuToast defaultConfig) = Fin 0.8"
    by (simp add: podA_def defaultConfig_fields js_div_Fin)
  show ?thesis
    using h n p chooseImageType_ratio [OF h, of noLiterals defaultConfig "Fin 0.5" "''toaster''"]
      chooseImageType_ratio [OF a, of noLiterals defaultConfig "Fin 0.5" "''toast''"]
    by simp
qed

text \<open>
  Claim C1, as stated, takes the ratio of a toaster from the memory usage. The node
  \<open>nodeA\<close> has CPU usage 0.9 and memory usage 0.1: the ratio of the selector is not its
  memory usage, and the variant is \<open>toaster4\<close>, where the memory usage as ratio would
  select \<open>toaster1\<close>.
\<close>

theorem chooseImageType_ratio_counterexample:
  "cpuUsage nodeA \<noteq> JStr ''4040404''
   \<and> usageRatio noLiterals defaultConfig nodeA ''toaster'' \<noteq> JNum (memoryUsage nodeA)
   \<and> chooseImageType noLiterals defaultConfig nodeA ''toaster'' = ''toaster4''
   \<and> chooseImageType noLiterals defaultConfig (nodeA\<lparr>cpuUsage := JNum (memoryUsage nodeA)\<rparr>)
        ''toaster'' = ''toaster1''"
  by (simp add: usageRatio_def chooseImageType_def nodeA_def js_lt_Fin)

text \<open>
  With a list of Christmas toasters that is not empty and a draw in \<open>[0, 1)\<close>, the
  Christmas selector returns a name: \<open>santa\<close> or an element of the list.
\<close>

lemma chooseImageTypeChristmas_defined:
  assumes "christmasToasters cfg \<noteq> []" and "0 \<le> u2" and "u2 < 1"
  shows "\<exists>n. chooseImageTypeChristmas cfg u1 u2 data kind = Some n
            \<and> (n = ''santa'' \<or> n \<in> set (christmasToasters cfg))"
proof -
  let ?xs = "christmasToasters cfg"
  let ?r = "u2 * real (length ?xs)"
  have len: "0 < length ?xs" using assms(1) by simp
  have nn: "0 \<le> ?r" using assms(2) by simp
  then have fl: "0 \<le> \<lfloor>?r\<rfloor>" by simp
  have "?r < real (length ?xs)" using assms(3) len by simp
  then have "\<lfloor>?r\<rfloor> < int (length ?xs)" by (simp add: floor_less_iff)
  then have idx: "nat \<lfloor>?r\<rfloor> < length ?xs" using fl by linarith
  have "js_index ?xs (js_floor (js_mul (Fin u2) (Fin (real (length ?xs)))))
          = Some (?xs ! nat \<lfloor>?r\<rfloor>)"
    using assms(2) fl idx by (simp add: js_mul_Fin)
  then show ?thesis
    using idx by (simp add: chooseImageTypeChristmas_def)
qed

text \<open>
  Claim C4. The selector is to return a defined variant name for every entity, kind and
  configuration, also with an empty list of Christmas toasters. The default
  configuration has the empty list; with the Christmas mode switched on and a first draw
  of 0.5, which is not below \<open>santaFreq = 0.1\<close>, the selector indexes the empty list and
  returns \<open>undefined\<close>.
\<close>

theorem chooseImageType_christmas_empty_list:
  "christmasToasters (defaultConfig\<lparr>christmasMode := True\<rparr>) = []
   \<and> chooseImageTypeChristmas (defaultConfig\<lparr>christmasMode := True\<rparr>) 0.5 0.5 podA ''toast'' = None
   \<and> imgType noLiterals (defaultConfig\<lparr>christmasMode := True\<rparr>) 0.5 0.5 podA ''toast'' = None"
  by (simp add: imgType_def chooseImageTypeChristmas_def defaultConfig_def js_lt_Fin js_mul_def
      zero_of_def)



section \<open>Leg completion of the animation controller\<close>

subsection \<open>What a leg completion writes\<close>

lemma legCompletion_isCop: "isCop (legCompletion e cfg d s) = copChosen cfg d"
  by (simp add: legCompletion_def Let_def split: prod.splits)

lemma legCompletion_isZoomie: "isZoomie (legCompletion e cfg d s) = zoomieChance cfg d"
  by (simp add: legCompletion_def Let_def split: prod.splits)

lemma legCompletion_duration:
  "duration (legCompletion e cfg d s) =
     (if zoomieChance cfg d then js_div (randomDuration cfg (durationDraw d)) (Fin 3)
      else randomDuration cfg (durationDraw d))"
  by (simp add: legCompletion_def Let_def split: prod.splits)

text \<open>The cop branch writes \<open>isCop\<close> and \<open>butterSlices\<close> and leaves \<open>hasButter\<close> as
  it was.\<close>

lemma legCompletion_hasButter:
  "hasButter (legCompletion e cfg d s) =
     (if copChosen cfg d then hasButter s
      else butterChanceDraw cfg d \<and> type_prop e = ''toast'')"
  by (simp add: legCompletion_def Let_def split: prod.splits)

lemma legCompletion_butterSlices:
  "butterSlices (legCompletion e cfg d s) =
     (if \<not> copChosen cfg d \<and> butterChanceDraw cfg d \<and> type_prop e = ''toast''
         \<and> zoomieChance cfg d
      then js_add (js_floor (js_mul (Fin (sliceDraw d)) (butterMaxSlices cfg))) (Fin 1)
      else Fin 0)"
  by (simp add: legCompletion_def Let_def split: prod.splits)

text \<open>A frame with \<open>progress < 1\<close> leaves the decorations alone; any other frame
  completes the leg.\<close>

lemma moveItem_isCop:
  "isCop (fst (moveItem e cfg d t s)) =
     (if js_lt (progress t s) (Fin 1) then isCop s else copChosen cfg d)"
  by (simp add: moveItem_def Let_def legCompletion_isCop)

lemma moveItem_hasButter:
  "hasButter (fst (moveItem e cfg d t s)) =
     (if js_lt (progress t s) (Fin 1) then hasButter s
      else hasButter (legCompletion e cfg d s))"
  by (simp add: moveItem_def Let_def legCompletion_hasButter)

lemma moveItem_butterSlices:
  "butterSlices (fst (moveItem e cfg d t s)) =
     (if js_lt (progress t s) (Fin 1) then butterSlices s
      else butterSlices (legCompletion e cfg d s))"
  by (simp add: moveItem_def Let_def legCompletion_butterSlices)

subsection \<open>The example legs\<close>

lemma butterLeg_facts:
  "\<not> zoomieChance defaultConfig butterLeg" "\<not> copChosen defaultConfig butterLeg"
  "butterChanceDraw defaultConfig butterLeg"
  by (simp_all add: zoomieChance_def copChosen_def butterChanceDraw_def defaultConfig_fields
      butterLeg_def js_div_Fin js_lt_Fin)

lemma copLeg_facts:
  "zoomieChance defaultConfig copLeg" "copChosen defaultConfig copLeg"
  by (simp_all add: zoomieChance_def copChosen_def defaultConfig_fields copLeg_def
      js_div_Fin js_lt_Fin)

lemma zoomieButterLeg_facts:
  "zoomieChance defaultConfig zoomieButterLeg" "\<not> copChosen defaultConfig zoomieButterLeg"
  "butterChanceDraw defaultConfig zoomieButterLeg"
  by (simp_all add: zoomieChance_def copChosen_def butterChanceDraw_def defaultConfig_fields
      zoomieButterLeg_def js_div_Fin js_lt_Fin)

lemma leg_draws:
  "durationDraw zoomieButterLeg = 0.5" "durationDraw butterLeg = 0.5"
  "zoomieDraw zoomieButterLeg = 0.05" "zoomieDraw butterLeg = 0.5"
  "sliceDraw zoomieButterLeg = 0.55" "butterDraw zoomieButterLeg = 0.1"
  by (simp_all add: zoomieButterLeg_def butterLeg_def)

subsection \<open>Cop and butter\<close>

text \<open>
  Claim C3. A leg completion that chooses the cop is to clear all butter state: the
  \<open>hasButter\<close> flag false and the slice count 0. A toast under the default
  configuration starts, completes a leg that grants butter (\<open>butterLeg\<close>) and then a leg
  that chooses the cop (\<open>copLeg\<close>): the slice count is 0, and the sprite is a cop whose
  \<open>hasButter\<close> flag is still true.
\<close>

theorem legCompletion_cop_keeps_hasButter:
  "hasButter (legCompletion toastEnv defaultConfig butterLeg firstSprite)
   \<and> copChosen defaultConfig copLeg
   \<and> isCop (legCompletion toastEnv defaultConfig copLeg
              (legCompletion toastEnv defaultConfig butterLeg firstSprite))
   \<and> hasButter (legCompletion toastEnv defaultConfig copLeg
                 (legCompletion toastEnv defaultConfig butterLeg firstSprite))
   \<and> butterSlices (legCompletion toastEnv defaultConfig copLeg
                    (legCompletion toastEnv defaultConfig butterLeg firstSprite)) = Fin 0"
  by (simp add: legCompletion_isCop legCompletion_hasButter legCompletion_butterSlices
      butterLeg_facts copLeg_facts toastEnv_def)

text \<open>
  Claim C9. In every state a sprite reaches from its initial state, by animation frames
  and leg completions with any draws, a cop has a butter slice count of zero.
\<close>

theorem reachable_cop_no_slices:
  assumes "reachable e cfg s"
  shows "isCop s \<longrightarrow> butterSlices s = Fin 0"
  using assms
proof (induction rule: reachable.induct)
  case (reach_init dur d)
  show ?case
    by (simp add: initialSprite_def split: prod.splits)
next
  case (reach_frame s d t)
  then show ?case
    by (simp add: moveItem_isCop moveItem_butterSlices legCompletion_butterSlices
        split: if_splits)
next
  case (reach_leg s d)
  show ?case
    by (simp add: legCompletion_isCop legCompletion_butterSlices)
qed

theorem reachable_cop_no_slices_witness:
  "reachable toastEnv defaultConfig
     (legCompletion toastEnv defaultConfig copLeg
       (legCompletion toastEnv defaultConfig zoomieButterLeg firstSprite))
   \<and> butterSlices (legCompletion toastEnv defaultConfig zoomieButterLeg firstSprite) = Fin 6
   \<and> isCop (legCompletion toastEnv defaultConfig copLeg
              (legCompletion toastEnv defaultConfig zoomieButterLeg firstSprite))
   \<and> butterSlices (legCompletion toastEnv defaultConfig copLeg
                    (legCompletion toastEnv defaultConfig zoomieButterLeg firstSprite)) = Fin 0"
proof -
  let ?s1 = "legCompletion toastEnv defaultConfig zoomieButterLeg firstSprite"
  let ?s2 = "legCompletion toastEnv defaultConfig copLeg ?s1"
  have "reachable toastEnv defaultConfig firstSprite"
    unfolding firstSprite_def by (rule reach_init)
  then have r: "reachable toastEnv defaultConfig ?s2"
    by (intro reach_leg)
  have c: "isCop ?s2"
    by (simp add: legCompletion_isCop copLeg_facts)
  have b: "butterSlices ?s1 = Fin 6"
    by (simp add: legCompletion_butterSlices zoomieButterLeg_facts toastEnv_def
        defaultConfig_fields leg_draws js_mul_Fin js_add_Fin)
  from reachable_cop_no_slices [OF r] c r b show ?thesis
    by simp
qed

subsection \<open>Butter\<close>

lemma butterChanceDraw_zero: "is_zero (butterChance cfg) \<Longrightarrow> \<not> butterChanceDraw cfg d"
  by (cases "butterChance cfg") (simp_all add: butterChanceDraw_def js_lt_def)




text \<open>With a butter chance of zero no reachable state has butter.\<close>

lemma reachable_no_butter:
  assumes "reachable e cfg s" and "is_zero (butterChance cfg)"
  shows "\<not> hasButter s"
  using assms
proof (induction rule: reachable.induct)
  case (reach_init dur d)
  show ?case
    by (simp add: initialSprite_def split: prod.splits)
next
  case (reach_frame s d t)
  then show ?case
    by (simp add: moveItem_hasButter legCompletion_hasButter butterChanceDraw_zero)
next
  case (reach_leg s d)
  then show ?case
    by (simp add: legCompletion_hasButter butterChanceDraw_zero)
qed

subsection \<open>Zoomie and leg duration\<close>

lemma randomDuration_Fin:
  assumes "durationMin cfg = Fin lo" "durationMax cfg = Fin hi" "lo \<le> hi" "0 \<le> u"
  shows "randomDuration cfg u = Fin (u * (hi - lo) + lo)"
  using assms by (simp add: randomDuration_def js_sub_Fin js_mul_Fin js_add_Fin)

lemma affine_bounds:
  fixes u lo hi :: real
  assumes "lo \<le> hi" "0 \<le> u" "u < 1"
  shows "lo \<le> u * (hi - lo) + lo" "u * (hi - lo) + lo \<le> hi"
proof -
  have d: "0 \<le> hi - lo" using assms by simp
  show "lo \<le> u * (hi - lo) + lo" using assms d by simp
  have "u * (hi - lo) \<le> 1 * (hi - lo)"
    using assms d by (intro mult_right_mono) simp_all
  then show "u * (hi - lo) + lo \<le> hi" by simp
qed

text \<open>
  Claim C8. After a leg completion the sprite is a zoomie exactly when the zoomie draw
  is below \<open>1 / zoomiesFreq\<close>. The new leg duration is the random duration
  \<open>draw * (durationMax - durationMin) + durationMin\<close>, divided by 3 for a zoomie; for
  \<open>durationMin \<le> durationMax\<close> and a draw in \<open>[0, 1)\<close> the random duration lies between
  \<open>durationMin\<close> and \<open>durationMax\<close>.
\<close>

theorem legCompletion_zoomie:
  assumes "s' = legCompletion e cfg d s"
  shows "isZoomie s' = js_lt (Fin (zoomieDraw d)) (js_div (Fin 1) (zoomiesFreq cfg))
    \<and> (\<forall>f. zoomiesFreq cfg = Fin f \<and> 0 < f \<longrightarrow> (isZoomie s' \<longleftrightarrow> zoomieDraw d < 1 / f))
    \<and> duration s' = (if isZoomie s' then js_div (randomDuration cfg (durationDraw d)) (Fin 3)
                     else randomDuration cfg (durationDraw d))
    \<and> (\<forall>lo hi. durationMin cfg = Fin lo \<and> durationMax cfg = Fin hi \<and> lo \<le> hi
          \<and> 0 \<le> durationDraw d \<and> durationDraw d < 1 \<longrightarrow>
          (\<exists>x. x = durationDraw d * (hi - lo) + lo \<and> lo \<le> x \<and> x \<le> hi
             \<and> duration s' = (if isZoomie s' then Fin (x / 3) else Fin x)))"
proof -
  have z: "isZoomie s' = zoomieChance cfg d"
    using assms by (simp add: legCompletion_isZoomie)
  have a: "isZoomie s' = js_lt (Fin (zoomieDraw d)) (js_div (Fin 1) (zoomiesFreq cfg))"
    using z by (simp add: zoomieChance_def)
  have b: "\<forall>f. zoomiesFreq cfg = Fin f \<and> 0 < f \<longrightarrow> (isZoomie s' \<longleftrightarrow> zoomieDraw d < 1 / f)"
    using a by (simp add: js_div_Fin js_lt_Fin)
  have c: "duration s' = (if isZoomie s' then js_div (randomDuration cfg (durationDraw d)) (Fin 3)
                     else randomDuration cfg (durationDraw d))"
    using assms z by (simp add: legCompletion_duration)
  have r: "\<forall>lo hi. durationMin cfg = Fin lo \<and> durationMax cfg = Fin hi \<and> lo \<le> hi
          \<and> 0 \<le> durationDraw d \<and> durationDraw d < 1 \<longrightarrow>
          (\<exists>x. x = durationDraw d * (hi - lo) + lo \<and> lo \<le> x \<and> x \<le> hi
             \<and> duration s' = (if isZoomie s' then Fin (x / 3) else Fin x))"
  proof (intro allI impI)
    fix lo hi
    assume h: "durationMin cfg = Fin lo \<and> durationMax cfg = Fin hi \<and> lo \<le> hi
          \<and> 0 \<le> durationDraw d \<and> durationDraw d < 1"
    then have rd: "randomDuration cfg (durationDraw d) = Fin (durationDraw d * (hi - lo) + lo)"
      by (simp add: randomDuration_Fin)
    have "lo \<le> durationDraw d * (hi - lo) + lo" "durationDraw d * (hi - lo) + lo \<le> hi"
      using h affine_bounds by simp_all
    then show "\<exists>x. x = durationDraw d * (hi - lo) + lo \<and> lo \<le> x \<and> x \<le> hi
             \<and> duration s' = (if isZoomie s' then Fin (x / 3) else Fin x)"
      using c rd by (simp add: js_div_Fin)
  qed
  from a b c r show ?thesis by blast
qed

theorem legCompletion_zoomie_witness:
  "isZoomie (legCompletion toastEnv defaultConfig zoomieButterLeg firstSprite)
   \<and> duration (legCompletion toastEnv defaultConfig zoomieButterLeg firstSprite)
       = Fin (17500 / 3)
   \<and> \<not> isZoomie (legCompletion toastEnv defaultConfig butterLeg firstSprite)
   \<and> duration (legCompletion toastEnv defaultConfig butterLeg firstSprite) = Fin 17500"
proof -
  let ?z = "legCompletion toastEnv defaultConfig zoomieButterLeg firstSprite"
  let ?n = "legCompletion toastEnv defaultConfig butterLeg firstSprite"
  note tz = legCompletion_zoomie [OF refl, of toastEnv defaultConfig zoomieButterLeg firstSprite]
  note tn = legCompletion_zoomie [OF refl, of toastEnv defaultConfig butterLeg firstSprite]
  have z: "isZoomie ?z"
    using tz [THEN conjunct1] by (simp add: defaultConfig_fields leg_draws js_lt_Fin js_div_Fin)
  have n: "\<not> isZoomie ?n"
    using tn [THEN conjunct1] by (simp add: defaultConfig_fields leg_draws js_lt_Fin js_div_Fin)
  have dz: "duration ?z = Fin (17500 / 3)"
    using tz [THEN conjunct2, THEN conjunct2, THEN conjunct2, rule_format, of 15000 20000] z
    by (simp add: defaultConfig_fields leg_draws)
  have dn: "duration ?n = Fin 17500"
    using tn [THEN conjunct2, THEN conjunct2, THEN conjunct2, rule_format, of 15000 20000] n
    by (simp add: defaultConfig_fields leg_draws)
  from z n dz dn show ?thesis by simp
qed

section \<open>Snapshots\<close>

text \<open>The status text of a timestamp is never that timestamp: it is longer, and it is
  a string where the timestamp may be \<open>null\<close>.\<close>

lemma statusText_neq: "Some (statusText ts source) \<noteq> ts"
proof (cases ts)
  case None
  then show ?thesis by simp
next
  case (Some t)
  have "length (statusText (Some t) source) \<noteq> length t"
    by (simp add: statusText_def)
  then have "statusText (Some t) source \<noteq> t"
    by auto
  with Some show ?thesis by simp
qed

text \<open>So once a snapshot is displayed, a snapshot with the same timestamp is taken
  again.\<close>

lemma same_timestamp_taken:
  assumes "lastUpdated s = Some (statusText ts source)" and "timestamp data = ts"
  shows "fetchDataAndUpdate cfg data source' s =
           s\<lparr>dataQueue_pods := filter (\<lambda>pod. \<not> excluded cfg pod) (pods data),
             dataQueue_nodes := nodes data,
             lastUpdated := Some (statusText ts source')\<rparr>"
proof -
  have "timestamp data \<noteq> lastUpdated s"
    using assms statusText_neq [of ts source] by simp
  then show ?thesis
    using assms(2) by (simp add: fetchDataAndUpdate_def)
qed

text \<open>
  Claim C2. A fetched snapshot with the timestamp of the displayed snapshot is to be
  skipped, the displayed pods, nodes and status left as they are. The application
  displays \<open>snapA\<close> (timestamp \<open>T1\<close>, from the remote source), so its \<open>lastUpdated\<close> is
  the status text \<open>T1 (remote)\<close>. The snapshot \<open>snapB\<close> has the same timestamp \<open>T1\<close>
  and arrives from the local file: the comparison is between \<open>T1\<close> and
  \<open>T1 (remote)\<close>, the update is not skipped, and pods, nodes and status are replaced.
\<close>

theorem fetchDataAndUpdate_same_timestamp:
  "timestamp snapB = timestamp snapA
   \<and> dataQueue_pods displayedA = [podA]
   \<and> dataQueue_nodes displayedA = [nodeA]
   \<and> lastUpdated displayedA = Some ''T1 (remote)''
   \<and> timestamp snapB \<noteq> lastUpdated displayedA
   \<and> fetchDataAndUpdate defaultConfig snapB ''local'' displayedA
       = \<lparr>dataQueue_pods = [podB], dataQueue_nodes = [], lastUpdated = Some ''T1 (local)''\<rparr>
   \<and> fetchDataAndUpdate defaultConfig snapB ''local'' displayedA \<noteq> displayedA"
  by (simp add: displayedA_def fetchDataAndUpdate_def snapA_def snapB_def initialApp_def
      statusText_def excluded_def defaultConfig_fields podA_def podB_def podArgo_def)

text \<open>
  Claim C10. When a snapshot is accepted, the displayed pods are the pods of the
  snapshot without those whose namespace is in \<open>excludeNamespaces\<close>, in the same order,
  and the displayed nodes are the nodes of the snapshot, unfiltered: no pod of an
  excluded namespace is displayed, and every other pod of the snapshot is.
\<close>

theorem fetchDataAndUpdate_filter:
  assumes "timestamp data \<noteq> lastUpdated s"
  shows "dataQueue_pods (fetchDataAndUpdate cfg data source s)
           = filter (\<lambda>pod. \<not> excluded cfg pod) (pods data)
    \<and> dataQueue_nodes (fetchDataAndUpdate cfg data source s) = nodes data
    \<and> (\<forall>pod n. namespace pod = Some n \<and> n \<in> set (excludeNamespaces cfg)
          \<longrightarrow> pod \<notin> set (dataQueue_pods (fetchDataAndUpdate cfg data source s)))
    \<and> (\<forall>pod \<in> set (pods data). \<not> excluded cfg pod
          \<longrightarrow> pod \<in> set (dataQueue_pods (fetchDataAndUpdate cfg data source s)))"
  using assms by (auto simp add: fetchDataAndUpdate_def excluded_def)

theorem fetchDataAndUpdate_filter_witness:
  "timestamp snapA \<noteq> lastUpdated initialApp
   \<and> pods snapA = [podArgo, podA]
   \<and> namespace podArgo = Some ''argocd''
   \<and> ''argocd'' \<in> set (excludeNamespaces defaultConfig)
   \<and> dataQueue_pods (fetchDataAndUpdate defaultConfig snapA ''remote'' initialApp) = [podA]
   \<and> dataQueue_nodes (fetchDataAndUpdate defaultConfig snapA ''remote'' initialApp) = [nodeA]"
proof -
  have h: "timestamp snapA \<noteq> lastUpdated initialApp"
    by (simp add: snapA_def initialApp_def)
  have p: "pods snapA = [podArgo, podA]" "nodes snapA = [nodeA]"
    by (simp_all add: snapA_def)
  have x: "excluded defaultConfig podArgo" "\<not> excluded defaultConfig podA"
    "namespace podArgo = Some ''argocd''"
    by (simp_all add: excluded_def defaultConfig_fields podArgo_def podA_def)
  show ?thesis
    using h p x fetchDataAndUpdate_filter [OF h, of defaultConfig "''remote''"]
    by (simp add: defaultConfig_fields)
qed

end
